theory Spec2Isabelle
  imports Complex_Main "HOL-Library.Multiset" "HOL-Library.Sublist"
begin

section \<open>Python values and their printed forms\<close>

text \<open>
  The two tools of the cookbook (\<open>RetrieverTool\<close> in \<open>notebooks/en/agents.ipynb\<close> and
  \<open>SQLExecutorTool\<close> in \<open>notebooks/en/enterprise_cookbook_argilla.ipynb\<close>) pass Python
  values around, test their truth value, print them with \<open>str\<close> and build strings
  from them. A string is a list of code points below 256. A float is written as the
  decimal numeral \<open>m / 10 ^ p\<close> that names it (\<open>53.43\<close> is \<open>PyFloat 5343 2\<close>); the
  printed form below is the one Python gives to numerals of at most 15 significant digits
  and a magnitude between \<open>1e-4\<close> and \<open>1e16\<close>, which covers the receipts of the notebook.
  The predicate \<open>plain_float\<close> of the section on the SQL tool is this range, and the
  statement about the printed rows of a result assumes it.
\<close>

datatype pyval =
    PyNone
  | PyBool bool
  | PyInt int
  | PyFloat int nat
  | PyStr string
  | PyList "pyval list"
  | PyTuple "pyval list"
  | PyDict "(string \<times> pyval) list"

datatype error =
    AssertionError string
  | JSONDecodeError
  | TypeError
  | KeyError string
  | ExternalError string
  | NotModelled

fun is_str :: "pyval \<Rightarrow> bool" where
  "is_str (PyStr s) = True"
| "is_str v = False"

text \<open>The truth value that \<open>if source:\<close> tests.\<close>

fun py_truthy :: "pyval \<Rightarrow> bool" where
  "py_truthy PyNone = False"
| "py_truthy (PyBool b) = b"
| "py_truthy (PyInt i) = (i \<noteq> 0)"
| "py_truthy (PyFloat m p) = (m \<noteq> 0)"
| "py_truthy (PyStr s) = (s \<noteq> [])"
| "py_truthy (PyList xs) = (xs \<noteq> [])"
| "py_truthy (PyTuple xs) = (xs \<noteq> [])"
| "py_truthy (PyDict kvs) = (kvs \<noteq> [])"

definition digit_char :: "nat \<Rightarrow> char" where
  "digit_char n = ''0123456789abcdef'' ! (n mod 16)"

fun str_nat :: "nat \<Rightarrow> string" where
  "str_nat n =
     (if n < 10 then [digit_char n]
      else str_nat (n div 10) @ [digit_char (n mod 10)])"

declare str_nat.simps [simp del]

definition str_int :: "int \<Rightarrow> string" where
  "str_int i = (if i < 0 then CHR ''-'' # str_nat (nat (- i)) else str_nat (nat i))"

text \<open>
  \<open>repr\<close> of a float numeral: integer part, a point, and the \<open>p\<close> fractional digits
  without their trailing zeros, of which one digit always stays (\<open>1.20\<close> prints as
  \<open>1.2\<close>, \<open>1.00\<close> as \<open>1.0\<close>).
\<close>

definition strip_zeros :: "string \<Rightarrow> string" where
  "strip_zeros ds =
     (let r = rev (dropWhile (\<lambda>c. c = CHR ''0'') (rev ds)) in if r = [] then ''0'' else r)"

definition repr_float :: "int \<Rightarrow> nat \<Rightarrow> string" where
  "repr_float m p =
     (let a = nat \<bar>m\<bar>;
          ds = str_nat (a mod 10 ^ p)
      in (if m < 0 then ''-'' else '''') @ str_nat (a div 10 ^ p) @ ''.''
           @ strip_zeros (replicate (p - length ds) (CHR ''0'') @ ds))"

text \<open>\<open>sep.join(xs)\<close>.\<close>

fun py_join :: "string \<Rightarrow> string list \<Rightarrow> string" where
  "py_join sep [] = []"
| "py_join sep [x] = x"
| "py_join sep (x # y # ys) = x @ sep @ py_join sep (y # ys)"

text \<open>
  \<open>repr\<close> of a string: double quotes when the string holds a single quote and no double
  quote, single quotes otherwise; the chosen quote and the backslash are escaped, tab,
  newline and carriage return have their letters, and any other code point that is not
  printable is written \<open>\xhh\<close>.
\<close>

definition py_printable :: "char \<Rightarrow> bool" where
  "py_printable c =
     (let n = (of_char c :: nat) in (32 \<le> n \<and> n < 127) \<or> (161 \<le> n \<and> n \<noteq> 173))"

definition repr_quote :: "string \<Rightarrow> char" where
  "repr_quote s = (if CHR 0x27 \<in> set s \<and> CHR 0x22 \<notin> set s then CHR 0x22 else CHR 0x27)"

definition repr_char :: "char \<Rightarrow> char \<Rightarrow> string" where
  "repr_char q c =
     (if c = q \<or> c = CHR 0x5C then [CHR 0x5C, c]
      else if c = CHR 0x09 then [CHR 0x5C, CHR ''t'']
      else if c = CHR 0x0A then [CHR 0x5C, CHR ''n'']
      else if c = CHR 0x0D then [CHR 0x5C, CHR ''r'']
      else if py_printable c then [c]
      else [CHR 0x5C, CHR ''x'', digit_char (of_char c div 16), digit_char (of_char c mod 16)])"

definition repr_str :: "string \<Rightarrow> string" where
  "repr_str s = (let q = repr_quote s in q # concat (map (repr_char q) s) @ [q])"

fun py_repr :: "pyval \<Rightarrow> string" where
  "py_repr PyNone = ''None''"
| "py_repr (PyBool b) = (if b then ''True'' else ''False'')"
| "py_repr (PyInt i) = str_int i"
| "py_repr (PyFloat m p) = repr_float m p"
| "py_repr (PyStr s) = repr_str s"
| "py_repr (PyList xs) = ''['' @ py_join '', '' (map py_repr xs) @ '']''"
| "py_repr (PyTuple [x]) = ''('' @ py_repr x @ '',)''"
| "py_repr (PyTuple xs) = ''('' @ py_join '', '' (map py_repr xs) @ '')''"
| "py_repr (PyDict kvs) =
     ''{'' @ py_join '', '' (map (\<lambda>(k, v). repr_str k @ '': '' @ py_repr v) kvs) @ ''}''"

text \<open>\<open>str(v)\<close>: a string is itself, every other value prints as its \<open>repr\<close>.\<close>

fun py_str :: "pyval \<Rightarrow> string" where
  "py_str (PyStr s) = s"
| "py_str v = py_repr v"

text \<open>\<open>s.replace(old, new)\<close> for one-character \<open>old\<close> and \<open>new\<close>.\<close>

definition str_replace :: "char \<Rightarrow> char \<Rightarrow> string \<Rightarrow> string" where
  "str_replace old new s = map (\<lambda>c. if c = old then new else c) s"

section \<open>The retriever tool\<close>

text \<open>
  The vector store is a resource handed to the tool: \<open>similarity_search(query, filter, k)\<close>
  answers with a list of documents or fails. The \<open>filter\<close> argument is \<open>None\<close> or the
  dictionary \<open>{"source": source}\<close>. \<open>json.loads\<close> is a library function, a parameter of
  \<open>forward\<close> below.
\<close>

record document =
  page_content :: string
  metadata :: "(string \<times> pyval) list"

type_synonym search_filter = "(string \<times> pyval) list option"

type_synonym vectorstore = "string \<Rightarrow> search_filter \<Rightarrow> nat \<Rightarrow> error + document list"

text \<open>The calls that leave the tool layer, in the order they are made.\<close>

datatype call =
    SimilaritySearch string search_filter nat
  | Connect
  | Execute string

text \<open>
  Dictionaries are objects on a heap. The class body of \<open>RetrieverTool\<close> builds three of
  them: \<open>inputs\<close> (address 0) and the two parameter descriptions it refers to (addresses
  1 and 2). \<open>inputs\<close> is an attribute of the class; an instance has the one attribute
  \<open>vectordb\<close> of its own, so \<open>self.inputs\<close> is the dictionary of the class.
\<close>

type_synonym addr = nat

datatype dval = DStr string | DRef addr

type_synonym heap = "addr \<Rightarrow> (string \<times> dval) list"

definition RetrieverTool_inputs :: addr where
  "RetrieverTool_inputs = 0"

definition class_heap :: heap where
  "class_heap =
     (\<lambda>a. [])
       (0 := [(''query'', DRef 1), (''source'', DRef 2)],
        1 := [(''type'', DStr ''text''),
              (''description'', DStr (''The query to perform. This should be semantically close ''
                 @ ''to your target documents. Use the affirmative form rather than a question.''))],
        2 := [(''type'', DStr ''text''), (''description'', DStr '''')])"

record RetrieverTool =
  vectordb :: vectorstore

text \<open>\<open>d[k] = v\<close> on a dictionary: the key keeps its place, a new key goes last.\<close>

fun dict_set :: "string \<Rightarrow> 'v \<Rightarrow> (string \<times> 'v) list \<Rightarrow> (string \<times> 'v) list" where
  "dict_set k v [] = [(k, v)]"
| "dict_set k v ((k', v') # kvs) =
     (if k' = k then (k, v) # kvs else (k', v') # dict_set k v kvs)"

definition source_description :: "pyval \<Rightarrow> string" where
  "source_description all_sources =
     ''The source of the documents to search, as a str representation of a list. ''
     @ ''Possible values in the list are: '' @ py_str all_sources
     @ ''. If this argument is not provided, all sources will be searched.''"

text \<open>
  \<open>__init__(self, vectordb, all_sources)\<close>: the call of the base class is outside the
  repository and sets no attribute that is read here; then \<open>self.vectordb\<close> is set and
  \<open>self.inputs["source"]["description"]\<close> is assigned.
\<close>

definition RetrieverTool_init ::
  "heap \<Rightarrow> vectorstore \<Rightarrow> pyval \<Rightarrow> error + (heap \<times> RetrieverTool)" where
  "RetrieverTool_init h vdb all_sources =
     (case map_of (h RetrieverTool_inputs) ''source'' of
        None \<Rightarrow> Inl (KeyError ''source'')
      | Some (DStr s) \<Rightarrow> Inl TypeError
      | Some (DRef a) \<Rightarrow>
          Inr (h(a := dict_set ''description'' (DStr (source_description all_sources)) (h a)),
               \<lparr>vectordb = vdb\<rparr>))"

text \<open>
  \<open>tool.inputs["source"]["description"]\<close>, read through any instance: the value stored
  under the key, a string or a reference to a dictionary.
\<close>

definition inputs_source_description :: "heap \<Rightarrow> RetrieverTool \<Rightarrow> error + dval" where
  "inputs_source_description h tool =
     (case map_of (h RetrieverTool_inputs) ''source'' of
        None \<Rightarrow> Inl (KeyError ''source'')
      | Some (DStr s) \<Rightarrow> Inl TypeError
      | Some (DRef a) \<Rightarrow>
          (case map_of (h a) ''description'' of
             None \<Rightarrow> Inl (KeyError ''description'')
           | Some v \<Rightarrow> Inr v))"

definition no_documents :: string where
  "no_documents = ''No documents found with this filtering. Try removing the source filter.''"

definition retrieved_header :: string where
  "retrieved_header = ''Retrieved documents:'' @ [CHR 0x0A, CHR 0x0A]"

definition document_separator :: string where
  "document_separator = CHR 0x0A # ''===Document==='' @ [CHR 0x0A]"

text \<open>
  The block \<open>if source: ...\<close> of \<open>forward\<close>: a source that is not provided (or that is
  false as a truth value) stays as it is. Otherwise a string without \<open>[\<close> is wrapped in a
  list; then the printed source, its single quotes replaced by double quotes, goes to
  \<open>json.loads\<close>, and what comes back is the new value of \<open>source\<close>.
\<close>

definition source_block :: "(string \<Rightarrow> error + pyval) \<Rightarrow> pyval \<Rightarrow> error + pyval" where
  "source_block json_loads source =
     (if py_truthy source
      then json_loads (str_replace (CHR 0x27) (CHR 0x22)
             (py_str (if is_str source \<and> CHR ''['' \<notin> set (py_str source)
                      then PyList [source] else source)))
      else Inr source)"

text \<open>
  \<open>forward(self, query, source=None)\<close>. The state of the tool layer (the heap of the
  class dictionaries and the instance) goes in and comes out; with it come the external
  calls made, in order, and the returned string or the exception raised.
\<close>

definition RetrieverTool_forward ::
  "(string \<Rightarrow> error + pyval) \<Rightarrow> heap \<times> RetrieverTool \<Rightarrow> pyval \<Rightarrow> pyval
     \<Rightarrow> (heap \<times> RetrieverTool) \<times> call list \<times> (error + string)" where
  "RetrieverTool_forward json_loads world query source =
     (if \<not> is_str query
      then (world, [], Inl (AssertionError ''Your search query must be a string''))
      else
        (case source_block json_loads source of
           Inl e \<Rightarrow> (world, [], Inl e)
         | Inr source' \<Rightarrow>
             (let q = py_str query;
                  flt = (if py_truthy source' then Some [(''source'', source')] else None)
              in case vectordb (snd world) q flt 3 of
                   Inl e \<Rightarrow> (world, [SimilaritySearch q flt 3], Inl e)
                 | Inr docs \<Rightarrow>
                     (world, [SimilaritySearch q flt 3],
                      Inr (if length docs = 0 then no_documents
                           else retrieved_header
                                  @ py_join document_separator (map page_content docs))))))"

section \<open>The SQL tool\<close>

text \<open>
  The tool reads the global \<open>engine\<close>. \<open>sql_text\<close> is sqlalchemy's \<open>text\<close>, applied to
  the argument as it comes; \<open>execute\<close> runs a statement on the database and answers with
  the rows (or fails), and with the database as the connection leaves it. A row is the
  tuple of its values and prints as that tuple (sqlalchemy prints in full a value whose
  printed form has at most 300 characters; longer values are not covered here).
\<close>

record 'db engine =
  sql_text :: "pyval \<Rightarrow> error + string"
  execute :: "'db \<Rightarrow> string \<Rightarrow> (error + pyval list) \<times> 'db"

text \<open>The loop \<open>for row in rows: output += "\n" + str(row)\<close>.\<close>

fun rows_loop :: "string \<Rightarrow> pyval list \<Rightarrow> string" where
  "rows_loop output [] = output"
| "rows_loop output (row # rows) = rows_loop (output @ CHR 0x0A # py_str row) rows"

definition SQLExecutorTool_forward ::
  "'db engine \<Rightarrow> 'db \<Rightarrow> pyval \<Rightarrow> 'db \<times> call list \<times> (error + string)" where
  "SQLExecutorTool_forward eng db query =
     (case sql_text eng query of
        Inl e \<Rightarrow> (db, [Connect], Inl e)
      | Inr stmt \<Rightarrow>
          (case execute eng db stmt of
             (Inl e, db') \<Rightarrow> (db', [Connect, Execute stmt], Inl e)
           | (Inr rows, db') \<Rightarrow> (db', [Connect, Execute stmt], Inr (rows_loop [] rows))))"

text \<open>
  The values on which the printed forms above are the ones the SQL tool returns. A float
  numeral prints as above when it is zero, or has at most 15 digits and a magnitude of at
  least \<open>1e-4\<close> (Python prints smaller and much larger floats with an exponent). A value
  of a row is \<open>None\<close>, an integer, such a float or a string, and its printed form has at
  most 300 characters (sqlalchemy shortens longer ones when it prints a row).
\<close>

definition plain_float :: "int \<Rightarrow> nat \<Rightarrow> bool" where
  "plain_float m p = (m = 0 \<or> (\<bar>m\<bar> < 10 ^ 15 \<and> 10 ^ p \<le> \<bar>m\<bar> * 10 ^ 4))"

fun sql_value :: "pyval \<Rightarrow> bool" where
  "sql_value PyNone = True"
| "sql_value (PyInt i) = True"
| "sql_value (PyFloat m p) = plain_float m p"
| "sql_value (PyStr s) = True"
| "sql_value v = False"

definition sql_row :: "pyval \<Rightarrow> bool" where
  "sql_row r =
     (case r of
        PyTuple vs \<Rightarrow> list_all (\<lambda>v. sql_value v \<and> length (py_repr v) \<le> 300) vs
      | _ \<Rightarrow> False)"

section \<open>Concrete resources\<close>

text \<open>
  The resources are outside the repository, so the statements below hold for any
  \<open>json.loads\<close>, any vector store and any engine. The instances of this section are what
  the witnesses and the counterexamples are evaluated on.
\<close>

subsection \<open>The receipts of the notebook\<close>

text \<open>
  The four rows that the notebook inserts into \<open>receipts\<close>, as the engine hands them
  back: \<open>(receipt_id, customer_name, price, tip)\<close>.
\<close>

definition receipts_rows :: "pyval list" where
  "receipts_rows =
     [PyTuple [PyInt 1, PyStr ''Alan Payne'', PyFloat 1206 2, PyFloat 120 2],
      PyTuple [PyInt 2, PyStr ''Alex Mason'', PyFloat 2386 2, PyFloat 24 2],
      PyTuple [PyInt 3, PyStr ''Woodrow Wilson'', PyFloat 5343 2, PyFloat 543 2],
      PyTuple [PyInt 4, PyStr ''Margaret James'', PyFloat 2111 2, PyFloat 100 2]]"

definition select_all_query :: string where
  "select_all_query = ''SELECT * from receipts''"

definition top_price_query :: string where
  "top_price_query = ''SELECT customer_name, price FROM receipts ORDER BY price DESC LIMIT 1''"

text \<open>
  What \<open>top_price_query\<close> asks of a table of receipts whose prices are floats: the name
  and the price of the row of highest price (the first such row of the table when several
  have it), and no row of an empty table.
\<close>

definition is_receipt :: "pyval \<Rightarrow> bool" where
  "is_receipt r =
     (case r of PyTuple [PyInt i, PyStr n, PyFloat m p, PyFloat tm tp] \<Rightarrow> True | _ \<Rightarrow> False)"

definition row_price :: "pyval \<Rightarrow> rat" where
  "row_price r = (case r of PyTuple [i, n, PyFloat m p, t] \<Rightarrow> of_int m / 10 ^ p | _ \<Rightarrow> 0)"

fun top_row :: "pyval \<Rightarrow> pyval list \<Rightarrow> pyval" where
  "top_row best [] = best"
| "top_row best (r # rs) = top_row (if row_price best < row_price r then r else best) rs"

definition name_price_top1 :: "pyval list \<Rightarrow> pyval list" where
  "name_price_top1 db =
     (case db of
        [] \<Rightarrow> []
      | r # rs \<Rightarrow> (case top_row r rs of PyTuple [i, n, pr, t] \<Rightarrow> [PyTuple [n, pr]] | _ \<Rightarrow> []))"

text \<open>
  An engine over a database that is the list of the rows of \<open>receipts\<close>. It answers
  \<open>select_all_query\<close> on any table and \<open>top_price_query\<close> on a table whose rows are
  receipts like those of the notebook (an integer, a string and two floats), and leaves
  the database as it is; \<open>text\<close> takes strings only. Anything else is \<open>NotModelled\<close>.
\<close>

definition receipts_engine :: "pyval list engine" where
  "receipts_engine =
     \<lparr>sql_text = (\<lambda>v. case v of PyStr s \<Rightarrow> Inr s | _ \<Rightarrow> Inl TypeError),
      execute = (\<lambda>db q.
        if q = select_all_query then (Inr db, db)
        else if q = top_price_query \<and> list_all is_receipt db
        then (Inr (name_price_top1 db), db)
        else (Inl NotModelled, db))\<rparr>"

definition row_line :: "pyval \<Rightarrow> string" where
  "row_line row = CHR 0x0A # py_str row"

definition woodrow_wilson :: string where
  "woodrow_wilson = CHR ''('' # CHR 0x27 # ''Woodrow Wilson'' @ CHR 0x27 # '', 53.43)''"

subsection \<open>A reader of JSON arrays of plain strings\<close>

text \<open>
  \<open>json_loads_sample\<close> agrees with \<open>json.loads\<close> wherever its answer is not
  \<open>NotModelled\<close>: it reads an array of string literals that hold no backslash and no
  control character, and it rejects a text whose first character after the white space
  cannot begin a JSON value.
\<close>

datatype token = TLeft | TRight | TComma | TString string

fun json_lex :: "string option \<Rightarrow> string \<Rightarrow> token list option" where
  "json_lex None [] = Some []"
| "json_lex (Some acc) [] = None"
| "json_lex None (c # cs) =
     (if c \<in> set [CHR '' '', CHR 0x09, CHR 0x0A, CHR 0x0D] then json_lex None cs
      else if c = CHR ''['' then map_option ((#) TLeft) (json_lex None cs)
      else if c = CHR '']'' then map_option ((#) TRight) (json_lex None cs)
      else if c = CHR '','' then map_option ((#) TComma) (json_lex None cs)
      else if c = CHR 0x22 then json_lex (Some []) cs
      else None)"
| "json_lex (Some acc) (c # cs) =
     (if c = CHR 0x22 then map_option ((#) (TString (rev acc))) (json_lex None cs)
      else if c = CHR 0x5C \<or> (of_char c :: nat) < 32 then None
      else json_lex (Some (c # acc)) cs)"

fun json_items :: "token list \<Rightarrow> pyval list option" where
  "json_items [TRight] = Some []"
| "json_items (TComma # TString s # ts) = map_option ((#) (PyStr s)) (json_items ts)"
| "json_items ts = None"

definition json_array :: "token list \<Rightarrow> pyval option" where
  "json_array ts =
     (case ts of
        [TLeft, TRight] \<Rightarrow> Some (PyList [])
      | TLeft # TString s # ts' \<Rightarrow> map_option (\<lambda>xs. PyList (PyStr s # xs)) (json_items ts')
      | _ \<Rightarrow> None)"

definition json_loads_sample :: "string \<Rightarrow> error + pyval" where
  "json_loads_sample s =
     (case dropWhile (\<lambda>c. c \<in> set [CHR '' '', CHR 0x09, CHR 0x0A, CHR 0x0D]) s of
        [] \<Rightarrow> Inl JSONDecodeError
      | c # cs \<Rightarrow>
          if c \<in> set (CHR 0x22 # ''[{-0123456789tfnNI'')
          then (case json_lex None s of
                  None \<Rightarrow> Inl NotModelled
                | Some ts \<Rightarrow> (case json_array ts of None \<Rightarrow> Inl NotModelled | Some v \<Rightarrow> Inr v))
          else Inl JSONDecodeError)"

subsection \<open>A vector store over a list of documents\<close>

text \<open>
  \<open>list_store docs\<close> ranks its documents in the order of the list, whatever the query,
  keeps those that the filter accepts (a list in the filter accepts any of its members)
  and returns the first \<open>k\<close> of them.
\<close>

fun filter_accepts :: "search_filter \<Rightarrow> document \<Rightarrow> bool" where
  "filter_accepts None d = True"
| "filter_accepts (Some kvs) d =
     list_all (\<lambda>(k, v). case map_of (metadata d) k of
                          None \<Rightarrow> False
                        | Some x \<Rightarrow> (case v of PyList vs \<Rightarrow> x \<in> set vs | _ \<Rightarrow> x = v)) kvs"

definition list_store :: "document list \<Rightarrow> vectorstore" where
  "list_store docs q flt k = Inr (take k (filter (filter_accepts flt) docs))"

definition guide_docs :: "document list" where
  "guide_docs =
     [\<lparr>page_content = ''alpha'', metadata = [(''source'', PyStr ''hf/docs'')]\<rparr>,
      \<lparr>page_content = ''beta'', metadata = [(''source'', PyStr ''a[b'')]\<rparr>,
      \<lparr>page_content = ''gamma'', metadata = [(''source'', PyStr ''hf/docs'')]\<rparr>,
      \<lparr>page_content = ''delta'', metadata = [(''source'', PyStr ''hf/blog'')]\<rparr>]"

definition guide_tool :: RetrieverTool where
  "guide_tool = \<lparr>vectordb = list_store guide_docs\<rparr>"

definition two_sources :: string where
  "two_sources =
     ''['' @ CHR 0x27 # ''hf/docs'' @ CHR 0x27 # '', '' @ CHR 0x27 # ''hf/blog'' @ CHR 0x27 # '']''"

section \<open>Evaluation and the loop of the SQL tool\<close>

lemmas py_eval = str_int_def str_nat.simps digit_char_def repr_float_def repr_str_def
  repr_quote_def repr_char_def py_printable_def strip_zeros_def Let_def

lemma rows_loop_append: "rows_loop acc rows = acc @ concat (map row_line rows)"
  by (induction rows arbitrary: acc) (simp_all add: row_line_def)

lemma sql_forward_rows:
  assumes "sql_text eng query = Inr stmt" and "execute eng db stmt = (Inr rows, db')"
  shows "SQLExecutorTool_forward eng db query
           = (db', [Connect, Execute stmt], Inr (concat (map row_line rows)))"
  using assms by (simp add: SQLExecutorTool_forward_def rows_loop_append)

section \<open>A printed value holds no newline\<close>

lemma digit_char_not_nl: "digit_char n \<noteq> CHR 0x0A"
proof -
  have "n mod 16 < length ''0123456789abcdef''"
    by simp
  then have "''0123456789abcdef'' ! (n mod 16) \<in> set ''0123456789abcdef''"
    by (rule nth_mem)
  then show ?thesis
    unfolding digit_char_def by auto
qed

lemma str_nat_no_nl: "CHR 0x0A \<notin> set (str_nat n)"
proof (induction n rule: str_nat.induct)
  case (1 n)
  show ?case
  proof (cases "n < 10")
    case True
    then show ?thesis
      by (subst str_nat.simps) (simp add: digit_char_not_nl[symmetric])
  next
    case False
    then show ?thesis
      using 1 by (subst str_nat.simps) (simp add: digit_char_not_nl[symmetric])
  qed
qed

lemma strip_zeros_subset: "set (strip_zeros ds) \<subseteq> insert (CHR ''0'') (set ds)"
proof -
  have "set (dropWhile (\<lambda>c. c = CHR ''0'') (rev ds)) \<subseteq> set (rev ds)"
    by (auto dest: set_dropWhileD)
  then show ?thesis
    by (auto simp: strip_zeros_def Let_def)
qed

lemma repr_float_no_nl: "CHR 0x0A \<notin> set (repr_float m p)"
proof -
  let ?ds = "str_nat (nat \<bar>m\<bar> mod 10 ^ p)"
  have "CHR 0x0A \<notin> set (strip_zeros (replicate (p - length ?ds) (CHR ''0'') @ ?ds))"
    using strip_zeros_subset[of "replicate (p - length ?ds) (CHR ''0'') @ ?ds"]
      str_nat_no_nl[of "nat \<bar>m\<bar> mod 10 ^ p"]
    by auto
  then show ?thesis
    by (simp add: repr_float_def Let_def str_nat_no_nl)
qed

lemma repr_char_no_nl: "q \<noteq> CHR 0x0A \<Longrightarrow> CHR 0x0A \<notin> set (repr_char q c)"
  by (simp add: repr_char_def py_printable_def Let_def digit_char_not_nl[symmetric])

lemma repr_str_no_nl: "CHR 0x0A \<notin> set (repr_str s)"
  by (simp add: repr_str_def repr_quote_def Let_def repr_char_no_nl)

lemma py_join_mem:
  "c \<in> set (py_join sep xs) \<Longrightarrow> c \<in> set sep \<or> (\<exists>x \<in> set xs. c \<in> set x)"
  by (induction sep xs rule: py_join.induct) auto

lemma py_repr_no_nl: "CHR 0x0A \<notin> set (py_repr v)"
  by (induction v rule: py_repr.induct)
     (auto simp: str_int_def str_nat_no_nl repr_float_no_nl repr_str_no_nl dest!: py_join_mem)

lemma count_row_lines:
  assumes "\<forall>r \<in> set rows. \<not> is_str r"
  shows "count_list (concat (map row_line rows)) (CHR 0x0A) = length rows"
  using assms
proof (induction rows)
  case Nil
  then show ?case by simp
next
  case (Cons r rs)
  have "py_str r = py_repr r"
    using Cons.prems by (cases r) simp_all
  then have "count_list (py_str r) (CHR 0x0A) = 0"
    using py_repr_no_nl[of r] by (simp add: count_list_0_iff)
  then show ?case
    using Cons by (simp add: row_line_def)
qed

lemma sql_row_not_str: "sql_row r \<Longrightarrow> \<not> is_str r"
  by (cases r) (simp_all add: sql_row_def)

lemma receipts_sql_rows: "\<forall>r \<in> set receipts_rows. sql_row r"
  by (simp add: receipts_rows_def sql_row_def plain_float_def py_eval)

section \<open>The row of highest price\<close>

lemma top_row_mem: "top_row b rs \<in> set (b # rs)"
  by (induction rs arbitrary: b) auto

lemma top_row_max: "\<forall>r \<in> set (b # rs). row_price r \<le> row_price (top_row b rs)"
proof (induction rs arbitrary: b)
  case Nil
  then show ?case by simp
next
  case (Cons x xs)
  show ?case
  proof (cases "row_price b < row_price x")
    case True
    then show ?thesis using Cons.IH[of x] by (auto intro: order_trans less_imp_le)
  next
    case False
    then show ?thesis using Cons.IH[of b] by (auto intro: order_trans)
  qed
qed

lemma top_row_receipts:
  assumes "mset (r # rs) = mset receipts_rows"
  shows "top_row r rs
           = PyTuple [PyInt 3, PyStr ''Woodrow Wilson'', PyFloat 5343 2, PyFloat 543 2]"
proof -
  have s: "set (r # rs) = set receipts_rows"
    using assms by (rule mset_eq_setD)
  have "top_row r rs \<in> set receipts_rows"
    using top_row_mem[of r rs] unfolding s .
  moreover have "row_price (PyTuple [PyInt 3, PyStr ''Woodrow Wilson'', PyFloat 5343 2,
                   PyFloat 543 2]) \<le> row_price (top_row r rs)"
    using top_row_max[of r rs] unfolding s by (simp add: receipts_rows_def)
  ultimately show ?thesis
    by (auto simp: receipts_rows_def row_price_def)
qed

lemma name_price_top1_receipts:
  assumes "mset db = mset receipts_rows"
  shows "name_price_top1 db = [PyTuple [PyStr ''Woodrow Wilson'', PyFloat 5343 2]]"
proof (cases db)
  case Nil
  then show ?thesis using assms by (simp add: receipts_rows_def)
next
  case (Cons r rs)
  then show ?thesis
    using top_row_receipts[of r rs] assms by (simp add: name_price_top1_def)
qed

lemma woodrow_line:
  "py_str (PyTuple [PyStr ''Woodrow Wilson'', PyFloat 5343 2]) = woodrow_wilson"
  by (simp add: py_eval woodrow_wilson_def)

section \<open>The claims\<close>

text \<open>
  Claim C1. The table \<open>receipts\<close> holds exactly the four rows of the notebook, inserted
  in any order, and the engine answers \<open>top_price_query\<close> with the name and the price of
  the row of highest price. Then \<open>forward\<close> returns a string, and
  \<open>('Woodrow Wilson', 53.43)\<close> occurs in it.
\<close>

theorem sql_top_price_receipt:
  assumes "mset db = mset receipts_rows"
    and "sql_text eng (PyStr top_price_query) = Inr top_price_query"
    and "execute eng db top_price_query = (Inr (name_price_top1 db), db')"
  shows "\<exists>out. snd (snd (SQLExecutorTool_forward eng db (PyStr top_price_query))) = Inr out
           \<and> sublist woodrow_wilson out"
proof -
  have "snd (snd (SQLExecutorTool_forward eng db (PyStr top_price_query)))
          = Inr ([CHR 0x0A] @ woodrow_wilson @ [])"
    using sql_forward_rows[OF assms(2,3)] name_price_top1_receipts[OF assms(1)] woodrow_line
    by (simp add: row_line_def)
  then show ?thesis unfolding sublist_def by blast
qed

theorem sql_top_price_receipt_witness:
  "mset (rev receipts_rows) = mset receipts_rows
   \<and> (\<exists>out. snd (snd (SQLExecutorTool_forward receipts_engine (rev receipts_rows)
                          (PyStr top_price_query))) = Inr out
            \<and> sublist woodrow_wilson out)"
  using sql_top_price_receipt[of "rev receipts_rows" receipts_engine "rev receipts_rows"]
  by (simp add: receipts_engine_def top_price_query_def select_all_query_def receipts_rows_def
        is_receipt_def)

text \<open>
  Claim C2. The query is a string and no source is given. The store holds \<open>matches\<close>,
  in rank order, for the query, and answers a search for 3 documents with the first 3 of
  them. Then \<open>forward\<close> returns the fixed message when there is no match, and otherwise
  the header followed by the contents of the retrieved documents joined by the
  separator: \<open>min 3 (length matches)\<close> blocks.
\<close>

theorem retriever_no_filter_blocks:
  assumes "vectordb tool q None 3 = Inr (take 3 matches)"
  shows "snd (snd (RetrieverTool_forward json_loads (h, tool) (PyStr q) PyNone))
           = (if matches = [] then Inr no_documents
              else Inr (retrieved_header
                          @ py_join document_separator (map page_content (take 3 matches))))
         \<and> length (map page_content (take 3 matches)) = min 3 (length matches)
         \<and> fst (snd (RetrieverTool_forward json_loads (h, tool) (PyStr q) PyNone))
             = [SimilaritySearch q None 3]"
  using assms by (simp add: RetrieverTool_forward_def source_block_def min_def)

theorem retriever_no_filter_blocks_witness:
  "snd (snd (RetrieverTool_forward json_loads_sample (class_heap, guide_tool)
               (PyStr ''q'') PyNone))
     = Inr (retrieved_header @ ''alpha'' @ document_separator @ ''beta''
              @ document_separator @ ''gamma'')
   \<and> snd (snd (RetrieverTool_forward json_loads_sample
                 (class_heap, \<lparr>vectordb = list_store (take 2 guide_docs)\<rparr>) (PyStr ''q'') PyNone))
     = Inr (retrieved_header @ ''alpha'' @ document_separator @ ''beta'')
   \<and> snd (snd (RetrieverTool_forward json_loads_sample
                 (class_heap, \<lparr>vectordb = list_store []\<rparr>) (PyStr ''q'') PyNone))
     = Inr no_documents"
  using retriever_no_filter_blocks[of guide_tool "''q''" guide_docs json_loads_sample class_heap]
    retriever_no_filter_blocks[of "\<lparr>vectordb = list_store (take 2 guide_docs)\<rparr>" "''q''"
      "take 2 guide_docs" json_loads_sample class_heap]
    retriever_no_filter_blocks[of "\<lparr>vectordb = list_store []\<rparr>" "''q''" "[]"
      json_loads_sample class_heap]
  by (simp add: guide_tool_def list_store_def guide_docs_def)




text \<open>
  Claim C4, as stated, fails for a source that holds \<open>[\<close>: the source \<open>a[b\<close> is not
  wrapped, \<open>json.loads\<close> rejects it and \<open>forward\<close> raises, while the printed list
  \<open>['a[b']\<close> is parsed and searched.
\<close>

theorem scalar_source_counterexample:
  "snd (snd (RetrieverTool_forward json_loads_sample (class_heap, guide_tool) (PyStr ''q'')
               (PyStr ''a[b'')))
     \<noteq> snd (snd (RetrieverTool_forward json_loads_sample (class_heap, guide_tool) (PyStr ''q'')
                  (PyStr (py_str (PyList [PyStr ''a[b''])))))"
  by (simp add: RetrieverTool_forward_def source_block_def json_loads_sample_def py_eval
        str_replace_def json_array_def guide_tool_def list_store_def guide_docs_def)

text \<open>
  Claim C4, amended. For a source \<open>s\<close> that is a string, not empty and without \<open>[\<close>,
  \<open>forward\<close> with \<open>s\<close>, with the printed list \<open>str([s])\<close> and with the list \<open>[s]\<close> itself
  are the same: same state, same external calls, same result.
\<close>

theorem scalar_source_as_list:
  assumes "s \<noteq> []" and "CHR ''['' \<notin> set s"
  shows "RetrieverTool_forward json_loads world (PyStr q) (PyStr s)
           = RetrieverTool_forward json_loads world (PyStr q)
               (PyStr (py_str (PyList [PyStr s])))
       \<and> RetrieverTool_forward json_loads world (PyStr q) (PyStr s)
           = RetrieverTool_forward json_loads world (PyStr q) (PyList [PyStr s])"
  using assms by (simp add: RetrieverTool_forward_def source_block_def)

theorem scalar_source_as_list_witness:
  "RetrieverTool_forward json_loads_sample (class_heap, guide_tool) (PyStr ''q'')
       (PyStr ''hf/docs'')
     = RetrieverTool_forward json_loads_sample (class_heap, guide_tool) (PyStr ''q'')
         (PyStr (py_str (PyList [PyStr ''hf/docs''])))
   \<and> snd (snd (RetrieverTool_forward json_loads_sample (class_heap, guide_tool) (PyStr ''q'')
                 (PyStr ''hf/docs'')))
      = Inr (retrieved_header @ ''alpha'' @ document_separator @ ''gamma'')"
  using scalar_source_as_list[of "''hf/docs''" json_loads_sample "(class_heap, guide_tool)"
          "''q''"]
  by (simp add: RetrieverTool_forward_def source_block_def json_loads_sample_def py_eval
        str_replace_def json_array_def guide_tool_def list_store_def guide_docs_def)

text \<open>
  Claim C5, as stated, fails for a read query that does not select every row: on the
  table of four receipts, \<open>top_price_query\<close> returns one line.
\<close>

theorem sql_rows_counterexample:
  "length receipts_rows = 4
   \<and> snd (snd (SQLExecutorTool_forward receipts_engine receipts_rows (PyStr top_price_query)))
       = Inr (CHR 0x0A # woodrow_wilson)
   \<and> count_list (CHR 0x0A # woodrow_wilson) (CHR 0x0A) \<noteq> length receipts_rows"
  by (simp add: SQLExecutorTool_forward_def receipts_engine_def receipts_rows_def
        top_price_query_def select_all_query_def name_price_top1_def row_price_def
        is_receipt_def woodrow_wilson_def py_eval)

text \<open>
  Claim C5, amended. The statement yields the rows \<open>rows\<close>, each a tuple of SQL values
  (\<open>sql_row\<close>: \<open>None\<close>, integers, strings and floats that Python prints without an
  exponent, each printing in at most 300 characters). Then \<open>forward\<close> returns one line
  per row of the result, in the order of the result, each a newline followed by the
  printed tuple, and the string has as many newlines as the result has rows. When the
  result is the rows \<open>inserted\<close> of the table, in any order (a query that selects every
  row), these are as many lines as rows were inserted, and the lines are the printed
  inserted rows, one for each.
\<close>

theorem sql_forward_one_line_per_row:
  assumes "sql_text eng query = Inr stmt"
    and "execute eng db stmt = (Inr rows, db')"
    and "\<forall>r \<in> set rows. sql_row r"
  shows "snd (snd (SQLExecutorTool_forward eng db query)) = Inr (concat (map row_line rows))
       \<and> count_list (concat (map row_line rows)) (CHR 0x0A) = length rows
       \<and> (mset rows = mset inserted \<longrightarrow>
            count_list (concat (map row_line rows)) (CHR 0x0A) = length inserted
            \<and> mset (map row_line rows) = mset (map row_line inserted))"
proof -
  have "\<forall>r \<in> set rows. \<not> is_str r"
    using assms(3) sql_row_not_str by blast
  then have n: "count_list (concat (map row_line rows)) (CHR 0x0A) = length rows"
    by (rule count_row_lines)
  have "length rows = length inserted"
    "mset (map row_line rows) = mset (map row_line inserted)"
    if "mset rows = mset inserted"
    using that mset_eq_length[of rows inserted] mset_map[of row_line rows]
      mset_map[of row_line inserted]
    by simp_all
  then show ?thesis
    using sql_forward_rows[OF assms(1,2)] n by simp
qed

theorem sql_forward_one_line_per_row_witness:
  "list_all sql_row receipts_rows
   \<and> snd (snd (SQLExecutorTool_forward receipts_engine receipts_rows (PyStr select_all_query)))
     = Inr (CHR 0x0A # ''(1, '' @ CHR 0x27 # ''Alan Payne'' @ CHR 0x27 # '', 12.06, 1.2)''
          @ CHR 0x0A # ''(2, '' @ CHR 0x27 # ''Alex Mason'' @ CHR 0x27 # '', 23.86, 0.24)''
          @ CHR 0x0A # ''(3, '' @ CHR 0x27 # ''Woodrow Wilson'' @ CHR 0x27 # '', 53.43, 5.43)''
          @ CHR 0x0A # ''(4, '' @ CHR 0x27 # ''Margaret James'' @ CHR 0x27 # '', 21.11, 1.0)'')
   \<and> count_list (concat (map row_line receipts_rows)) (CHR 0x0A) = 4
   \<and> mset (map row_line receipts_rows) = mset (map row_line (rev receipts_rows))"
  using sql_forward_one_line_per_row[of receipts_engine "PyStr select_all_query"
          select_all_query receipts_rows receipts_rows receipts_rows "rev receipts_rows"]
    receipts_sql_rows
  by (simp add: receipts_engine_def receipts_rows_def row_line_def py_eval list_all_iff)

text \<open>
  Claim C6. \<open>forward\<close> of the retriever tool hands back the state of the tool layer it
  was given, and a second call on that state, with the same arguments, gives the same
  calls and the same result. When the engine leaves the database as it was for the
  statement (a read query), \<open>forward\<close> of the SQL tool hands back the same database, and
  a second call gives the same calls and the same result.
\<close>

theorem forward_twice_same_output:
  "fst (RetrieverTool_forward json_loads world query source) = world
   \<and> RetrieverTool_forward json_loads
         (fst (RetrieverTool_forward json_loads world query source)) query source
       = RetrieverTool_forward json_loads world query source
   \<and> ((\<forall>stmt. sql_text eng sql_query = Inr stmt \<longrightarrow> snd (execute eng db stmt) = db) \<longrightarrow>
        fst (SQLExecutorTool_forward eng db sql_query) = db
        \<and> SQLExecutorTool_forward eng (fst (SQLExecutorTool_forward eng db sql_query)) sql_query
            = SQLExecutorTool_forward eng db sql_query)"
proof -
  have w: "fst (RetrieverTool_forward json_loads world query source) = world"
    by (auto simp: RetrieverTool_forward_def Let_def split: sum.splits)
  have d: "fst (SQLExecutorTool_forward eng db sql_query) = db"
    if "\<forall>stmt. sql_text eng sql_query = Inr stmt \<longrightarrow> snd (execute eng db stmt) = db"
    using that
    by (auto simp: SQLExecutorTool_forward_def split: sum.splits prod.splits)
  show ?thesis
    using w d by simp
qed

theorem forward_twice_same_output_witness:
  "fst (RetrieverTool_forward json_loads_sample (class_heap, guide_tool) (PyStr ''q'')
          (PyStr ''hf/docs'')) = (class_heap, guide_tool)
   \<and> fst (SQLExecutorTool_forward receipts_engine receipts_rows (PyStr select_all_query))
       = receipts_rows
   \<and> SQLExecutorTool_forward receipts_engine
         (fst (SQLExecutorTool_forward receipts_engine receipts_rows (PyStr select_all_query)))
         (PyStr select_all_query)
       = SQLExecutorTool_forward receipts_engine receipts_rows (PyStr select_all_query)"
  using forward_twice_same_output[of json_loads_sample "(class_heap, guide_tool)" "PyStr ''q''"
          "PyStr ''hf/docs''" receipts_engine "PyStr select_all_query" receipts_rows]
  by (simp add: receipts_engine_def)

text \<open>
  Claim C7. \<open>forward\<close> of the retriever tool leaves the heap and the instance as they
  were, makes no external call or the one similarity search for 3 documents, and its
  calls and result are the same on any heap for the same vector store. \<open>forward\<close> of the
  SQL tool opens a connection and executes at most the one statement, and the database
  it leaves is the one the engine leaves after that statement.
\<close>

theorem forward_frame:
  "fst (RetrieverTool_forward json_loads (h, tool) query source) = (h, tool)
   \<and> (fst (snd (RetrieverTool_forward json_loads (h, tool) query source)) = []
        \<or> (\<exists>q flt. query = PyStr q
              \<and> fst (snd (RetrieverTool_forward json_loads (h, tool) query source))
                  = [SimilaritySearch q flt 3]))
   \<and> (vectordb tool' = vectordb tool \<longrightarrow>
        snd (RetrieverTool_forward json_loads (h', tool') query source)
          = snd (RetrieverTool_forward json_loads (h, tool) query source))
   \<and> ((fst (SQLExecutorTool_forward eng db sql_query) = db
          \<and> fst (snd (SQLExecutorTool_forward eng db sql_query)) = [Connect])
        \<or> (\<exists>stmt. sql_text eng sql_query = Inr stmt
              \<and> fst (SQLExecutorTool_forward eng db sql_query) = snd (execute eng db stmt)
              \<and> fst (snd (SQLExecutorTool_forward eng db sql_query))
                  = [Connect, Execute stmt]))"
proof -
  have a: "fst (RetrieverTool_forward json_loads (h, tool) query source) = (h, tool)"
    by (auto simp: RetrieverTool_forward_def Let_def split: sum.splits)
  have b: "fst (snd (RetrieverTool_forward json_loads (h, tool) query source)) = []
        \<or> (\<exists>q flt. query = PyStr q
              \<and> fst (snd (RetrieverTool_forward json_loads (h, tool) query source))
                  = [SimilaritySearch q flt 3])"
    by (cases query) (auto simp: RetrieverTool_forward_def Let_def split: sum.splits)
  have c: "snd (RetrieverTool_forward json_loads (h', tool') query source)
          = snd (RetrieverTool_forward json_loads (h, tool) query source)"
    if "vectordb tool' = vectordb tool"
    using that
    by (auto simp: RetrieverTool_forward_def Let_def split: sum.splits)
  have d: "(fst (SQLExecutorTool_forward eng db sql_query) = db
          \<and> fst (snd (SQLExecutorTool_forward eng db sql_query)) = [Connect])
        \<or> (\<exists>stmt. sql_text eng sql_query = Inr stmt
              \<and> fst (SQLExecutorTool_forward eng db sql_query) = snd (execute eng db stmt)
              \<and> fst (snd (SQLExecutorTool_forward eng db sql_query))
                  = [Connect, Execute stmt])"
    by (auto simp: SQLExecutorTool_forward_def split: sum.splits prod.splits)
  show ?thesis
    using a b c d by blast
qed

theorem forward_frame_witness:
  "fst (RetrieverTool_forward json_loads_sample (class_heap, guide_tool) (PyStr ''q'')
          (PyStr ''hf/docs'')) = (class_heap, guide_tool)
   \<and> snd (RetrieverTool_forward json_loads_sample
            (class_heap(2 := []), \<lparr>vectordb = list_store guide_docs\<rparr>) (PyStr ''q'')
            (PyStr ''hf/docs''))
       = snd (RetrieverTool_forward json_loads_sample (class_heap, guide_tool) (PyStr ''q'')
                (PyStr ''hf/docs''))"
  using forward_frame[of json_loads_sample class_heap guide_tool "PyStr ''q''"
          "PyStr ''hf/docs''" "\<lparr>vectordb = list_store guide_docs\<rparr>" "class_heap(2 := [])"
          receipts_engine receipts_rows "PyStr select_all_query"]
  by (simp add: guide_tool_def)

text \<open>
  Claim C8. A source that is a non-empty string is parsed as follows: when it holds no
  \<open>[\<close> it is first put in a one-element list, which prints as \<open>[\<close>, the \<open>repr\<close> of the
  string, \<open>]\<close>; when it holds \<open>[\<close> it is taken as it is. The text, its single quotes
  replaced by double quotes, goes to \<open>json.loads\<close>. An error of \<open>json.loads\<close> is the
  error of \<open>forward\<close>, with no external call made; a parsed value is what the search
  filters on.
\<close>

theorem source_string_lenient_parsing:
  assumes "s \<noteq> []"
  shows "source_block json_loads (PyStr s)
           = json_loads (str_replace (CHR 0x27) (CHR 0x22)
               (if CHR ''['' \<in> set s then s else py_str (PyList [PyStr s])))
       \<and> py_str (PyList [PyStr s]) = ''['' @ repr_str s @ '']''
       \<and> (\<forall>e. source_block json_loads (PyStr s) = Inl e \<longrightarrow>
              RetrieverTool_forward json_loads world (PyStr q) (PyStr s) = (world, [], Inl e))
       \<and> (\<forall>v. source_block json_loads (PyStr s) = Inr v \<longrightarrow>
              fst (snd (RetrieverTool_forward json_loads world (PyStr q) (PyStr s)))
                = [SimilaritySearch q (if py_truthy v then Some [(''source'', v)] else None) 3])"
  using assms
  by (auto simp: source_block_def RetrieverTool_forward_def Let_def split: sum.splits)

theorem source_string_lenient_parsing_witness:
  "source_block json_loads_sample (PyStr ''hf/docs'') = Inr (PyList [PyStr ''hf/docs''])
   \<and> source_block json_loads_sample (PyStr two_sources)
       = Inr (PyList [PyStr ''hf/docs'', PyStr ''hf/blog''])
   \<and> RetrieverTool_forward json_loads_sample (class_heap, guide_tool) (PyStr ''q'')
         (PyStr ''a[b'')
       = ((class_heap, guide_tool), [], Inl JSONDecodeError)
   \<and> fst (snd (RetrieverTool_forward json_loads_sample (class_heap, guide_tool) (PyStr ''q'')
                 (PyStr ''hf/docs'')))
       = [SimilaritySearch ''q'' (Some [(''source'', PyList [PyStr ''hf/docs''])]) 3]"
  using source_string_lenient_parsing[of "''hf/docs''" json_loads_sample
          "(class_heap, guide_tool)" "''q''"]
    source_string_lenient_parsing[of two_sources json_loads_sample
          "(class_heap, guide_tool)" "''q''"]
    source_string_lenient_parsing[of "''a[b''" json_loads_sample
          "(class_heap, guide_tool)" "''q''"]
  by (simp add: json_loads_sample_def json_array_def str_replace_def py_eval two_sources_def)

text \<open>
  Claim C9. When the statement yields no row, \<open>forward\<close> of the SQL tool returns the
  empty string; when it yields at least one row, the returned string begins with a
  newline, and the printed first row follows it.
\<close>

theorem sql_forward_empty_or_newline:
  assumes "sql_text eng query = Inr stmt" and "execute eng db stmt = (Inr rows, db')"
  shows "(rows = [] \<longrightarrow> snd (snd (SQLExecutorTool_forward eng db query)) = Inr [])
       \<and> (rows \<noteq> [] \<longrightarrow>
            (\<exists>rest. snd (snd (SQLExecutorTool_forward eng db query))
                      = Inr (CHR 0x0A # py_str (hd rows) @ rest)))"
  using sql_forward_rows[OF assms] by (cases rows) (simp_all add: row_line_def)

theorem sql_forward_empty_or_newline_witness:
  "snd (snd (SQLExecutorTool_forward receipts_engine [] (PyStr select_all_query))) = Inr []
   \<and> (\<exists>rest. snd (snd (SQLExecutorTool_forward receipts_engine receipts_rows
                          (PyStr select_all_query)))
               = Inr (CHR 0x0A # py_str (hd receipts_rows) @ rest))"
  using sql_forward_empty_or_newline[of receipts_engine "PyStr select_all_query"
          select_all_query "[]" "[]" "[]"]
        sql_forward_empty_or_newline[of receipts_engine "PyStr select_all_query"
          select_all_query receipts_rows receipts_rows receipts_rows]
  by (simp add: receipts_engine_def receipts_rows_def)

text \<open>
  Claim C10. From the heap that the class body leaves, two constructions in a row
  succeed, with any stores and any \<open>all_sources\<close> values \<open>a1\<close> and \<open>a2\<close>. The description
  of \<open>source\<close> is empty before, is the text made from \<open>a1\<close> after the first construction,
  and after the second it is the text made from \<open>a2\<close> for the first instance as for the
  second.
\<close>

theorem init_overwrites_shared_description:
  "\<exists>h1 t1 h2 t2.
     RetrieverTool_init class_heap v1 a1 = Inr (h1, t1)
     \<and> RetrieverTool_init h1 v2 a2 = Inr (h2, t2)
     \<and> inputs_source_description class_heap t1 = Inr (DStr [])
     \<and> inputs_source_description h1 t1 = Inr (DStr (source_description a1))
     \<and> inputs_source_description h2 t1 = Inr (DStr (source_description a2))
     \<and> inputs_source_description h2 t2 = Inr (DStr (source_description a2))"
  by (simp add: RetrieverTool_init_def inputs_source_description_def class_heap_def
        RetrieverTool_inputs_def)

theorem init_overwrites_shared_description_witness:
  "source_description (PyList [PyStr ''hf/blog''])
     \<noteq> source_description (PyList [PyStr ''hf/docs''])
   \<and> (\<exists>h1 t1 h2 t2.
         RetrieverTool_init class_heap (list_store guide_docs) (PyList [PyStr ''hf/docs''])
           = Inr (h1, t1)
         \<and> RetrieverTool_init h1 (list_store []) (PyList [PyStr ''hf/blog'']) = Inr (h2, t2)
         \<and> inputs_source_description h1 t1
             = Inr (DStr (source_description (PyList [PyStr ''hf/docs''])))
         \<and> inputs_source_description h2 t1
             = Inr (DStr (source_description (PyList [PyStr ''hf/blog''])))
         \<and> inputs_source_description h2 t2
             = Inr (DStr (source_description (PyList [PyStr ''hf/blog'']))))"
proof -
  have "source_description (PyList [PyStr ''hf/blog''])
          \<noteq> source_description (PyList [PyStr ''hf/docs''])"
    by (simp add: source_description_def py_eval)
  then show ?thesis
    using init_overwrites_shared_description[of "list_store guide_docs"
            "PyList [PyStr ''hf/docs'']" "list_store []" "PyList [PyStr ''hf/blog'']"]
    by blast
qed

end
